theory Spec2Isabelle
  imports Complex_Main
begin

section \<open>The analog clock component: time model\<close>

text \<open>
  The development embeds the \<open>Clock\<close> class of the \<open>vaadin-clock\<close> web component (the
  revision that has the \<open>running\<close> mode).  A JavaScript number that holds a clock field, a
  step or a millisecond reading is an \<open>int\<close>, and a fraction (a pointer angle, the
  minutes-of-day figure of the bounds check) is a \<open>rat\<close>: every finite double is a
  rational number.  Where the class parses, prints, compares minutes of the day or keeps
  the account of running time, the rounding of doubles is written out (\<open>toDouble\<close>,
  \<open>fl\<close>); the non-finite numbers \<open>Infinity\<close> and \<open>NaN\<close> are not represented, apart from
  the \<open>NaN\<close> of \<open>parseInt\<close>.  A JavaScript string is a \<open>string\<close> whose characters are
  read as code units below 256.  The earlier revision of the class, without the
  \<open>running\<close> mode, computes the candidate of a keyboard step and of a drag by the same
  arithmetic.
\<close>

subsection \<open>JavaScript primitives used by the component\<close>

text \<open>The \<open>%\<close> operator with a non-zero divisor: the remainder has the sign of the dividend.\<close>

definition js_rem :: "int \<Rightarrow> int \<Rightarrow> int" where
  "js_rem a b = (if a < 0 then - ((- a) mod \<bar>b\<bar>) else a mod \<bar>b\<bar>)"

text \<open>\<open>Math.round\<close>: the nearest integer, a tie going up.\<close>

definition Math_round :: "rat \<Rightarrow> int" where
  "Math_round x = \<lfloor>x + 1 / 2\<rfloor>"

subsection \<open>Doubles\<close>

text \<open>
  A finite double is a rational number with a significand of 53 bits.  \<open>fl\<close> rounds a
  rational number to the nearest double, a tie going to the even significand, as every
  arithmetic operation of JavaScript does with its exact result; the range of the
  exponent is not modelled, so that overflow to \<open>Infinity\<close> (from \<open>2 ^ 1024\<close> on) and
  the subnormal numbers (below \<open>2 ^ - 1022\<close>) are outside the model.
\<close>

function bitlen :: "int \<Rightarrow> int" where
  "bitlen n = (if n \<le> 0 then 0 else 1 + bitlen (n div 2))"
  by pat_completeness auto
termination
  by (relation "measure nat") auto

declare bitlen.simps [simp del]

definition pow2 :: "int \<Rightarrow> rat" where
  "pow2 e = (if 0 \<le> e then 2 ^ nat e else 1 / 2 ^ nat (- e))"

text \<open>The nearest integer, a tie going to the even one.\<close>

definition round_even :: "rat \<Rightarrow> int" where
  "round_even r =
     (let f = \<lfloor>r\<rfloor>; d = r - of_int f
      in if d < 1 / 2 then f else if 1 / 2 < d then f + 1 else if even f then f else f + 1)"

text \<open>The exponent \<open>e\<close> with \<open>2 ^ e \<le> x < 2 ^ (e + 1)\<close>, for a positive \<open>x\<close>.\<close>

definition binade :: "rat \<Rightarrow> int" where
  "binade x =
     (let (p, q) = quotient_of x;
          e0 = bitlen p - bitlen q
      in if pow2 e0 \<le> x then e0 else e0 - 1)"

definition fl_pos :: "rat \<Rightarrow> rat" where
  "fl_pos x = (let u = pow2 (binade x - 52) in of_int (round_even (x / u)) * u)"

definition fl :: "rat \<Rightarrow> rat" where
  "fl x = (if x = 0 then 0 else if x < 0 then - fl_pos (- x) else fl_pos x)"

text \<open>
  The double nearest to an integer: the integer itself up to \<open>2 ^ 53\<close> in magnitude, and
  the rounded integer beyond.
\<close>

definition toDouble :: "int \<Rightarrow> int" where
  "toDouble n =
     (if \<bar>n\<bar> \<le> 2 ^ 53 then n
      else if n < 0 then - \<lfloor>fl_pos (of_int (- n))\<rfloor>
      else \<lfloor>fl_pos (of_int n)\<rfloor>)"

text \<open>The operators \<open>+\<close>, \<open>-\<close> and \<open>*\<close> on integer-valued doubles.\<close>

definition dadd :: "int \<Rightarrow> int \<Rightarrow> int" where
  "dadd a b = toDouble (a + b)"

definition dsub :: "int \<Rightarrow> int \<Rightarrow> int" where
  "dsub a b = toDouble (a - b)"

definition dmul :: "int \<Rightarrow> int \<Rightarrow> int" where
  "dmul a b = toDouble (a * b)"

subsection \<open>Strings and numbers\<close>

text \<open>Truthiness of a nullable string and of a nullable number.\<close>

definition truthy :: "string option \<Rightarrow> bool" where
  "truthy v = (case v of None \<Rightarrow> False | Some s \<Rightarrow> s \<noteq> [])"

definition truthy_num :: "int option \<Rightarrow> bool" where
  "truthy_num v = (case v of None \<Rightarrow> False | Some n \<Rightarrow> n \<noteq> 0)"

text \<open>
  \<open>String(n)\<close> for an integer-valued double \<open>n\<close>.  JavaScript prints the shortest run
  of decimal digits which, followed by zeros, denotes a number that rounds to \<open>n\<close>; of
  two such runs of the same length it prints the one nearer to \<open>n\<close>.  The number is
  written in full while it is below \<open>10 ^ 21\<close>, and with an exponent from there on.  A
  negative number carries a minus sign.
\<close>

definition digit_char :: "nat \<Rightarrow> char" where
  "digit_char d = char_of (48 + d)"

function digits_of :: "int \<Rightarrow> string" where
  "digits_of n =
     (if n < 10 then [digit_char (nat n)]
      else digits_of (n div 10) @ [digit_char (nat (n mod 10))])"
  by pat_completeness auto
termination
  by (relation "measure nat") auto

declare digits_of.simps [simp del]

text \<open>
  For each number \<open>k\<close> of digits, from one up, the two multiples of the matching power
  of ten that enclose \<open>x\<close>, the nearer first.
\<close>

definition decimal_candidates :: "int \<Rightarrow> int list" where
  "decimal_candidates x =
     (let n = length (digits_of x)
      in concat (map (\<lambda>k. let p = 10 ^ (n - k); lo = (x div p) * p; hi = lo + p
                          in if x - lo < hi - x \<or> (x - lo = hi - x \<and> even (x div p))
                             then [lo, hi] else [hi, lo])
                  [1..<Suc n]))"

definition shortest :: "int \<Rightarrow> int" where
  "shortest x =
     (case find (\<lambda>c. toDouble c = x) (decimal_candidates x) of Some c \<Rightarrow> c | None \<Rightarrow> x)"

definition exponential :: "int \<Rightarrow> string" where
  "exponential c =
     (let ds = digits_of c;
          sig = rev (dropWhile (\<lambda>d. d = CHR ''0'') (rev ds));
          ex = ''e+'' @ digits_of (int (length ds) - 1)
      in if length sig = 1 then sig @ ex else hd sig # CHR ''.'' # tl sig @ ex)"

definition String_pos :: "int \<Rightarrow> string" where
  "String_pos x = (let c = shortest x in if c < 10 ^ 21 then digits_of c else exponential c)"

definition String_num :: "int \<Rightarrow> string" where
  "String_num n = (if n < 0 then CHR ''-'' # String_pos (- n) else String_pos n)"

text \<open>\<open>s.padStart(k, '0')\<close>.\<close>

definition padStart0 :: "nat \<Rightarrow> string \<Rightarrow> string" where
  "padStart0 k s = replicate (k - length s) CHR ''0'' @ s"

text \<open>\<open>s.split(':')\<close>: the pieces between the colons; a string without colon is one piece.\<close>

fun split_colon :: "string \<Rightarrow> string list" where
  "split_colon [] = [[]]"
| "split_colon (c # cs) =
     (if c = CHR '':'' then [] # split_colon cs
      else (case split_colon cs of [] \<Rightarrow> [[c]] | p # ps \<Rightarrow> (c # p) # ps))"

text \<open>
  \<open>parseInt(s, 10)\<close>: leading white space is dropped, one sign is read, and the longest
  run of decimal digits that follows is the value, rounded to the nearest double;
  \<open>None\<close> stands for \<open>NaN\<close>.  The digits are read exactly, as V8 reads them; the
  language lets an engine read the digits after the twentieth as zeros.  A run of digits
  that denotes \<open>2 ^ 1024\<close> or more, which JavaScript reads as \<open>Infinity\<close>, is read here
  as the integer that a double with an unbounded exponent would hold: the properties
  proved below either do not depend on such a number or exclude it.
\<close>

definition is_space :: "char \<Rightarrow> bool" where
  "is_space c = ((of_char c :: nat) \<in> set [9, 10, 11, 12, 13, 32, 160])"

definition is_digit :: "char \<Rightarrow> bool" where
  "is_digit c = (48 \<le> (of_char c :: nat) \<and> (of_char c :: nat) \<le> 57)"

definition digit_val :: "char \<Rightarrow> int" where
  "digit_val c = int (of_char c) - 48"

definition digits_val :: "string \<Rightarrow> int" where
  "digits_val ds = foldl (\<lambda>acc c. 10 * acc + digit_val c) 0 ds"

definition parseInt :: "string \<Rightarrow> int option" where
  "parseInt str =
     (let S = dropWhile is_space str;
          sign = (if S \<noteq> [] \<and> hd S = CHR ''-'' then - 1 else 1);
          S' = (if S \<noteq> [] \<and> (hd S = CHR ''+'' \<or> hd S = CHR ''-'') then tl S else S);
          Z = takeWhile is_digit S'
      in if Z = [] then None else Some (sign * toDouble (digits_val Z)))"

text \<open>\<open>parseInt(s, 10) || 0\<close>: \<open>NaN\<close> and zero both give \<open>0\<close>.\<close>

definition parseInt_or0 :: "string \<Rightarrow> int" where
  "parseInt_or0 s = (case parseInt s of None \<Rightarrow> 0 | Some n \<Rightarrow> if n = 0 then 0 else n)"

subsection \<open>The static methods \<open>parseTime\<close> and \<open>formatTime\<close>\<close>

record time =
  hours :: int
  minutes :: int
  seconds :: int

definition parseTime :: "string option \<Rightarrow> time option" where
  "parseTime timeString =
     (if \<not> truthy timeString then None
      else let parts = split_colon (the timeString)
           in if length parts < 2 then None
              else Some \<lparr> hours = parseInt_or0 (parts ! 0),
                          minutes = parseInt_or0 (parts ! 1),
                          seconds = (if length parts \<ge> 3 then parseInt_or0 (parts ! 2) else 0) \<rparr>)"

definition pad :: "int \<Rightarrow> string" where
  "pad n = padStart0 2 (String_num n)"

text \<open>The third argument is optional and defaults to \<open>0\<close>.\<close>

definition formatTime :: "int \<Rightarrow> int \<Rightarrow> int option \<Rightarrow> string" where
  "formatTime h m sec =
     (let s = (case sec of None \<Rightarrow> 0 | Some v \<Rightarrow> v)
      in pad h @ '':'' @ pad m @ '':'' @ pad s)"

subsection \<open>The state of a clock\<close>

text \<open>
  The properties and private fields of a \<open>Clock\<close> instance that the time logic reads or
  writes.  A private field \<open>_x\<close> of the class is the field \<open>u_x\<close> here; \<open>value\<close>, \<open>min\<close>
  and \<open>max\<close> carry the suffix \<open>_p\<close>.  \<open>label\<close>, the accessible names and the animation
  handles belong to presentation and scheduling and are left out.

  The class extends \<open>PolylitMixin(LitElement)\<close>.  That property system is not among the
  sources embedded here; what it does with the two properties that declare an observer,
  \<open>value\<close> and \<open>running\<close>, is modelled.  An assignment that changes such a property
  stores the new value at once and, unless the property is already noted, notes the
  property with the value it had; the observers run later, in the update that ends the
  task.  \<open>changedProperties\<close> holds the notes in the order in which they were made.
\<close>

datatype change = ValueWas "string option" | RunningWas bool

fun isValueWas :: "change \<Rightarrow> bool" where
  "isValueWas (ValueWas old) = True"
| "isValueWas (RunningWas old) = False"

fun isRunningWas :: "change \<Rightarrow> bool" where
  "isRunningWas (RunningWas old) = True"
| "isRunningWas (ValueWas old) = False"

record clock =
  value_p :: "string option"
  running :: bool
  min_p :: "string option"
  max_p :: "string option"
  disabled :: bool
  readonly :: bool
  adjustable :: bool
  step :: int
  u_hours :: int
  u_minutes :: int
  u_seconds :: int
  u_draggingHand :: "string option"
  u_focused :: bool
  u_baseTimeMs :: int
  u_runStartTimestamp :: "int option"
  u_accumulatedMs :: int
  changedProperties :: "change list"

text \<open>The property defaults and the constructor.\<close>

definition initial_clock :: clock where
  "initial_clock =
     \<lparr> value_p = None, running = False, min_p = None, max_p = None,
       disabled = False, readonly = False, adjustable = True, step = 60,
       u_hours = 0, u_minutes = 0, u_seconds = 0,
       u_draggingHand = None, u_focused = False,
       u_baseTimeMs = 0, u_runStartTimestamp = None, u_accumulatedMs = 0,
       changedProperties = [] \<rparr>"

subsection \<open>Value, running mode and the displayed time\<close>

definition parseAndSetTime :: "string option \<Rightarrow> clock \<Rightarrow> clock" where
  "parseAndSetTime timeString c =
     (if \<not> truthy timeString then c
      else let parts = split_colon (the timeString)
           in if length parts \<ge> 2
              then c\<lparr> u_hours := parseInt_or0 (parts ! 0),
                      u_minutes := parseInt_or0 (parts ! 1),
                      u_seconds := (if length parts \<ge> 3 then parseInt_or0 (parts ! 2) else 0) \<rparr>
              else c)"

text \<open>
  In the operations below \<open>now\<close> is the reading of \<open>Date.now()\<close>; one invocation of a
  handler sees one reading.
\<close>

definition elapsedMs :: "int \<Rightarrow> clock \<Rightarrow> int" where
  "elapsedMs now c =
     (if truthy_num (u_runStartTimestamp c)
      then dadd (u_accumulatedMs c) (dsub now (the (u_runStartTimestamp c)))
      else u_accumulatedMs c)"

definition normalizedMs :: "int \<Rightarrow> int" where
  "normalizedMs totalMs =
     (let dayMs = 24 * 60 * 60 * 1000
      in js_rem (js_rem totalMs dayMs + dayMs) dayMs)"

definition updateDisplayFromRunningTime :: "int \<Rightarrow> clock \<Rightarrow> clock" where
  "updateDisplayFromRunningTime now c =
     (let totalMs = dadd (u_baseTimeMs c) (elapsedMs now c);
          n = normalizedMs totalMs
      in c\<lparr> u_hours := n div 3600000,
              u_minutes := js_rem n 3600000 div 60000,
              u_seconds := js_rem n 60000 div 1000 \<rparr>)"

text \<open>One animation frame, and the start of the animation, which runs the first frame at once.\<close>

definition animate :: "int \<Rightarrow> clock \<Rightarrow> clock" where
  "animate now c = (if \<not> running c then c else updateDisplayFromRunningTime now c)"

definition startAnimation :: "int \<Rightarrow> clock \<Rightarrow> clock" where
  "startAnimation now c = (if \<not> running c then c else animate now c)"

definition valueChanged :: "string option \<Rightarrow> int \<Rightarrow> clock \<Rightarrow> clock" where
  "valueChanged newValue now c =
     (if truthy newValue
      then let c1 = parseAndSetTime newValue c
           in (case parseTime newValue of
                 None \<Rightarrow> c1
               | Some parsed \<Rightarrow>
                   let c2 = c1\<lparr> u_baseTimeMs :=
                                   dadd (dadd (dmul (hours parsed) 3600000)
                                               (dmul (minutes parsed) 60000))
                                        (dmul (seconds parsed) 1000),
                                 u_accumulatedMs := 0 \<rparr>
                   in if running c2 then c2\<lparr> u_runStartTimestamp := Some now \<rparr> else c2)
      else c)"

definition runningChanged :: "bool \<Rightarrow> bool \<Rightarrow> int \<Rightarrow> clock \<Rightarrow> clock" where
  "runningChanged newValue oldValue now c =
     (if newValue then startAnimation now (c\<lparr> u_runStartTimestamp := Some now \<rparr>)
      else if oldValue
      then (if truthy_num (u_runStartTimestamp c)
            then c\<lparr> u_accumulatedMs :=
                      dadd (u_accumulatedMs c) (dsub now (the (u_runStartTimestamp c))),
                    u_runStartTimestamp := None \<rparr>
            else c)
      else c)"

text \<open>
  An assignment to \<open>value\<close> or to \<open>running\<close>.  Assigning the current value does
  nothing.
\<close>

definition assign_value :: "string option \<Rightarrow> clock \<Rightarrow> clock" where
  "assign_value v c =
     (if v = value_p c then c
      else c\<lparr> value_p := v,
              changedProperties :=
                (if list_ex isValueWas (changedProperties c) then changedProperties c
                 else changedProperties c @ [ValueWas (value_p c)]) \<rparr>)"

definition assign_running :: "bool \<Rightarrow> clock \<Rightarrow> clock" where
  "assign_running b c =
     (if b = running c then c
      else c\<lparr> running := b,
              changedProperties :=
                (if list_ex isRunningWas (changedProperties c) then changedProperties c
                 else changedProperties c @ [RunningWas (running c)]) \<rparr>)"

text \<open>
  The update that ends a task: for each noted property, in the order of the notes, the
  observer is called with the value the property has now and the value that was noted.
  \<open>_valueChanged\<close> takes the new value only.
\<close>

fun runObserver :: "int \<Rightarrow> clock \<Rightarrow> change \<Rightarrow> clock" where
  "runObserver now c (ValueWas old) = valueChanged (value_p c) now c"
| "runObserver now c (RunningWas old) = runningChanged (running c) old now c"

definition performUpdate :: "int \<Rightarrow> clock \<Rightarrow> clock" where
  "performUpdate now c =
     foldl (runObserver now) (c\<lparr> changedProperties := [] \<rparr>) (changedProperties c)"

text \<open>An assignment made in a task of its own, with the update that follows it.\<close>

definition set_value :: "string option \<Rightarrow> int \<Rightarrow> clock \<Rightarrow> clock" where
  "set_value v now c = performUpdate now (assign_value v c)"

definition set_running :: "bool \<Rightarrow> int \<Rightarrow> clock \<Rightarrow> clock" where
  "set_running b now c = performUpdate now (assign_running b c)"


subsection \<open>Bounds and user adjustment\<close>

definition isInteractive :: "clock \<Rightarrow> bool" where
  "isInteractive c = (adjustable c \<and> \<not> disabled c \<and> \<not> readonly c)"

text \<open>
  The figure \<open>hours * 60 + minutes + seconds / 60\<close> that the bounds check compares, each
  operation rounding its result to a double.
\<close>

definition minutesOfDay :: "time \<Rightarrow> rat" where
  "minutesOfDay t =
     fl (fl (fl (of_int (hours t) * 60) + of_int (minutes t)) + fl (of_int (seconds t) / 60))"

definition isWithinBounds :: "clock \<Rightarrow> string \<Rightarrow> bool" where
  "isWithinBounds c timeString =
     (if \<not> truthy (min_p c) \<and> \<not> truthy (max_p c) then True
      else (case parseTime (Some timeString) of
              None \<Rightarrow> True
            | Some t \<Rightarrow>
                if truthy (min_p c) \<and>
                   (case parseTime (min_p c) of
                      None \<Rightarrow> False
                    | Some minTime \<Rightarrow> minutesOfDay t < minutesOfDay minTime)
                then False
                else if truthy (max_p c) \<and>
                   (case parseTime (max_p c) of
                      None \<Rightarrow> False
                    | Some maxTime \<Rightarrow> minutesOfDay t > minutesOfDay maxTime)
                then False
                else True))"

text \<open>
  \<open>_setTimeValue\<close> stores the triple, assigns \<open>value\<close> and resets the running-mode base.
\<close>

definition setTimeValue :: "int \<Rightarrow> int \<Rightarrow> int \<Rightarrow> int \<Rightarrow> clock \<Rightarrow> clock" where
  "setTimeValue h m s now c =
     (let c1 = assign_value (Some (formatTime h m (Some s)))
                 (c\<lparr> u_hours := h, u_minutes := m, u_seconds := s \<rparr>);
          c2 = c1\<lparr> u_baseTimeMs := dadd (dadd (dmul h 3600000) (dmul m 60000)) (dmul s 1000),
                   u_accumulatedMs := 0 \<rparr>
      in if running c2 then c2\<lparr> u_runStartTimestamp := Some now \<rparr> else c2)"

text \<open>The candidate time of a keyboard step: one wrap around the day, then the split into fields.\<close>

definition steppedTime :: "int \<Rightarrow> clock \<Rightarrow> time" where
  "steppedTime stepSeconds c =
     (let total0 = u_hours c * 3600 + u_minutes c * 60 + u_seconds c + stepSeconds;
          daySeconds = 24 * 3600;
          totalSeconds = (if total0 < 0 then total0 + daySeconds
                          else if total0 \<ge> daySeconds then total0 - daySeconds
                          else total0)
      in \<lparr> hours = totalSeconds div 3600,
           minutes = js_rem totalSeconds 3600 div 60,
           seconds = js_rem totalSeconds 60 \<rparr>)"

definition adjustTimeByStep :: "int \<Rightarrow> int \<Rightarrow> clock \<Rightarrow> clock" where
  "adjustTimeByStep stepSeconds now c =
     (let t = steppedTime stepSeconds c;
          newValue = formatTime (hours t) (minutes t) (Some (seconds t))
      in if isWithinBounds c newValue
         then setTimeValue (hours t) (minutes t) (seconds t) now c
         else c)"

definition onFocus :: "clock \<Rightarrow> clock" where
  "onFocus c = c\<lparr> u_focused := True \<rparr>"

definition onBlur :: "clock \<Rightarrow> clock" where
  "onBlur c = c\<lparr> u_focused := False \<rparr>"

definition onKeyDown :: "string \<Rightarrow> int \<Rightarrow> clock \<Rightarrow> clock" where
  "onKeyDown key now c =
     (if \<not> isInteractive c \<or> \<not> u_focused c then c
      else let st = (if step c \<noteq> 0 then step c else 60)
           in if key = ''ArrowUp'' \<or> key = ''ArrowRight'' then adjustTimeByStep st now c
              else if key = ''ArrowDown'' \<or> key = ''ArrowLeft'' then adjustTimeByStep (- st) now c
              else c)"

text \<open>The hours after a switch between AM and PM.\<close>

definition toggledHours :: "bool \<Rightarrow> clock \<Rightarrow> int" where
  "toggledHours toAM c =
     (let h0 = (if toAM then u_hours c - 12 else u_hours c + 12);
          h1 = (if h0 < 0 then h0 + 24 else h0)
      in if h1 \<ge> 24 then h1 - 24 else h1)"

definition toggleAmPm :: "bool \<Rightarrow> int \<Rightarrow> clock \<Rightarrow> clock" where
  "toggleAmPm toAM now c =
     (if \<not> isInteractive c then c
      else let isCurrentlyAM = (u_hours c < 12)
           in if toAM = isCurrentlyAM then c
              else let newHours = toggledHours toAM c;
                       newValue = formatTime newHours (u_minutes c) (Some (u_seconds c))
                   in if isWithinBounds c newValue
                      then setTimeValue newHours (u_minutes c) (u_seconds c) now c
                      else c)"

subsection \<open>Pointer interaction\<close>

text \<open>
  \<open>_getAngleFromPoint\<close> turns the pointer position into an angle in degrees, measured
  clockwise from twelve o'clock, through the layout of the page and \<open>Math.atan2\<close>; it
  returns a number from \<open>0\<close> to \<open>360\<close>.  The handlers below take that angle as their
  argument.  A touch event carries the list of the angles of its touch points.
\<close>

definition handleFaceClick :: "rat \<Rightarrow> int \<Rightarrow> clock \<Rightarrow> clock" where
  "handleFaceClick angle now c =
     (let mins = js_rem (Math_round (angle / 6)) 60;
          newValue = formatTime (u_hours c) mins (Some 0)
      in if isWithinBounds c newValue then setTimeValue (u_hours c) mins 0 now c else c)"

definition onFaceMouseDown :: "rat \<Rightarrow> int \<Rightarrow> clock \<Rightarrow> clock" where
  "onFaceMouseDown angle now c = (if \<not> isInteractive c then c else handleFaceClick angle now c)"

definition onFaceTouchStart :: "rat list \<Rightarrow> int \<Rightarrow> clock \<Rightarrow> clock" where
  "onFaceTouchStart touches now c =
     (if \<not> isInteractive c then c
      else if length touches = 1 then handleFaceClick (touches ! 0) now c
      else c)"

definition startDrag :: "string \<Rightarrow> clock \<Rightarrow> clock" where
  "startDrag hand c = c\<lparr> u_draggingHand := Some hand \<rparr>"

definition onMouseDown :: "string \<Rightarrow> clock \<Rightarrow> clock" where
  "onMouseDown hand c = (if \<not> isInteractive c then c else startDrag hand c)"

definition onTouchStart :: "string \<Rightarrow> clock \<Rightarrow> clock" where
  "onTouchStart hand c = (if \<not> isInteractive c then c else startDrag hand c)"

text \<open>
  The hour branch of a drag: the sum of the hour read off the angle and the half of the
  day, and the hours after the two special-case corrections.
\<close>

definition draggedHourSum :: "rat \<Rightarrow> clock \<Rightarrow> int" where
  "draggedHourSum angle c =
     (let hourValue = js_rem (Math_round (angle / 30)) 12;
          isPM = (u_hours c \<ge> 12)
      in hourValue + (if isPM then 12 else 0))"

definition draggedHours :: "rat \<Rightarrow> clock \<Rightarrow> int" where
  "draggedHours angle c =
     (let isPM = (u_hours c \<ge> 12);
          h0 = draggedHourSum angle c;
          h1 = (if h0 = 24 then 12 else h0)
      in if h1 = 0 \<and> isPM then 12 else h1)"

text \<open>The candidate time of a drag, by the hand that is dragged.\<close>

definition draggedTime :: "rat \<Rightarrow> clock \<Rightarrow> time" where
  "draggedTime angle c =
     (if u_draggingHand c = Some ''hour''
      then \<lparr> hours = draggedHours angle c, minutes = u_minutes c, seconds = u_seconds c \<rparr>
      else if u_draggingHand c = Some ''minute''
      then \<lparr> hours = u_hours c, minutes = js_rem (Math_round (angle / 6)) 60, seconds = u_seconds c \<rparr>
      else if u_draggingHand c = Some ''second''
      then \<lparr> hours = u_hours c, minutes = u_minutes c, seconds = js_rem (Math_round (angle / 6)) 60 \<rparr>
      else \<lparr> hours = u_hours c, minutes = u_minutes c, seconds = u_seconds c \<rparr>)"

definition handleDrag :: "rat \<Rightarrow> clock \<Rightarrow> clock" where
  "handleDrag angle c =
     (let t = draggedTime angle c;
          newValue = formatTime (hours t) (minutes t) (Some (seconds t))
      in if isWithinBounds c newValue
         then c\<lparr> u_hours := hours t, u_minutes := minutes t, u_seconds := seconds t \<rparr>
         else c)"

definition onMouseMove :: "rat \<Rightarrow> clock \<Rightarrow> clock" where
  "onMouseMove angle c = (if \<not> truthy (u_draggingHand c) then c else handleDrag angle c)"

definition onTouchMove :: "rat list \<Rightarrow> clock \<Rightarrow> clock" where
  "onTouchMove touches c =
     (if \<not> truthy (u_draggingHand c) then c
      else if length touches = 1 then handleDrag (touches ! 0) c
      else c)"

definition endDrag :: "int \<Rightarrow> clock \<Rightarrow> clock" where
  "endDrag now c =
     (if truthy (u_draggingHand c)
      then setTimeValue (u_hours c) (u_minutes c) (u_seconds c) now (c\<lparr> u_draggingHand := None \<rparr>)
      else c)"

definition onMouseUp :: "int \<Rightarrow> clock \<Rightarrow> clock" where
  "onMouseUp now c = (if truthy (u_draggingHand c) then endDrag now c else c)"

definition onTouchEnd :: "int \<Rightarrow> clock \<Rightarrow> clock" where
  "onTouchEnd now c = (if truthy (u_draggingHand c) then endDrag now c else c)"

subsection \<open>Attaching the element\<close>

text \<open>
  \<open>connectedCallback\<close> shows the value when there is one and the local time of day
  otherwise; \<open>local\<close> holds \<open>getHours()\<close>, \<open>getMinutes()\<close> and \<open>getSeconds()\<close> of the
  current date.
\<close>

definition connectedCallback :: "time \<Rightarrow> int \<Rightarrow> clock \<Rightarrow> clock" where
  "connectedCallback local now c =
     (let c1 = (if truthy (value_p c) then parseAndSetTime (value_p c) c
                else c\<lparr> u_hours := hours local, u_minutes := minutes local,
                        u_seconds := seconds local \<rparr>)
      in if running c1 then startAnimation now c1 else c1)"

subsection \<open>Events\<close>

text \<open>
  What can happen to a clock, one task at a time: a property is assigned, a script
  assigns \<open>value\<close> and \<open>running\<close> several times over, the element is attached, a frame
  of the animation runs, or a focus, keyboard or pointer event arrives.  An event that
  reads \<open>Date.now()\<close> carries the reading, which the handler and the update that ends
  its task both see.  A task in which \<open>value\<close> or \<open>running\<close> may be assigned ends with
  the update.  An element that is not attached postpones its
  updates until it is; the tasks here are those of an attached element, and \<open>Connected\<close>
  stands for a run of \<open>connectedCallback\<close>, as when the element is attached again.
\<close>

datatype assignment = AssignValue "string option" | AssignRunning bool

fun assign :: "assignment \<Rightarrow> clock \<Rightarrow> clock" where
  "assign (AssignValue v) c = assign_value v c"
| "assign (AssignRunning b) c = assign_running b c"

datatype event =
    SetValue "string option" int
  | SetRunning bool int
  | Task "assignment list" int
  | SetMin "string option"
  | SetMax "string option"
  | SetDisabled bool
  | SetReadonly bool
  | SetAdjustable bool
  | SetStep int
  | Connected time int
  | AnimationFrame int
  | Focus
  | Blur
  | KeyDown string int
  | ToggleAmPm bool int
  | FaceMouseDown rat int
  | FaceTouchStart "rat list" int
  | HandMouseDown string
  | HandTouchStart string
  | MouseMove rat
  | TouchMove "rat list"
  | MouseUp int
  | TouchEnd int

fun fire :: "event \<Rightarrow> clock \<Rightarrow> clock" where
  "fire (SetValue v now) c = set_value v now c"
| "fire (SetRunning b now) c = set_running b now c"
| "fire (Task as now) c = performUpdate now (foldl (\<lambda>st a. assign a st) c as)"
| "fire (SetMin v) c = c\<lparr> min_p := v \<rparr>"
| "fire (SetMax v) c = c\<lparr> max_p := v \<rparr>"
| "fire (SetDisabled b) c = c\<lparr> disabled := b \<rparr>"
| "fire (SetReadonly b) c = c\<lparr> readonly := b \<rparr>"
| "fire (SetAdjustable b) c = c\<lparr> adjustable := b \<rparr>"
| "fire (SetStep n) c = c\<lparr> step := n \<rparr>"
| "fire (Connected local now) c = connectedCallback local now c"
| "fire (AnimationFrame now) c = animate now c"
| "fire Focus c = onFocus c"
| "fire Blur c = onBlur c"
| "fire (KeyDown key now) c = performUpdate now (onKeyDown key now c)"
| "fire (ToggleAmPm toAM now) c = performUpdate now (toggleAmPm toAM now c)"
| "fire (FaceMouseDown angle now) c = performUpdate now (onFaceMouseDown angle now c)"
| "fire (FaceTouchStart touches now) c = performUpdate now (onFaceTouchStart touches now c)"
| "fire (HandMouseDown hand) c = onMouseDown hand c"
| "fire (HandTouchStart hand) c = onTouchStart hand c"
| "fire (MouseMove angle) c = onMouseMove angle c"
| "fire (TouchMove touches) c = onTouchMove touches c"
| "fire (MouseUp now) c = performUpdate now (onMouseUp now c)"
| "fire (TouchEnd now) c = performUpdate now (onTouchEnd now c)"

definition fire_all :: "event list \<Rightarrow> clock \<Rightarrow> clock" where
  "fire_all es c = foldl (\<lambda>st e. fire e st) c es"

section \<open>Notions used to state the properties\<close>

text \<open>The displayed time of a clock, and what it means for a time to be a time of day.\<close>

definition displayed :: "clock \<Rightarrow> time" where
  "displayed c = \<lparr> hours = u_hours c, minutes = u_minutes c, seconds = u_seconds c \<rparr>"


definition fmt :: "time \<Rightarrow> string" where
  "fmt t = formatTime (hours t) (minutes t) (Some (seconds t))"

text \<open>
  A time respects the bounds of a clock when it is not below the minimum and not above
  the maximum, a bound that is absent or does not parse leaving its side open.
\<close>

definition respectsBounds :: "clock \<Rightarrow> time \<Rightarrow> bool" where
  "respectsBounds c t =
     ((case parseTime (min_p c) of None \<Rightarrow> True | Some lo \<Rightarrow> minutesOfDay lo \<le> minutesOfDay t) \<and>
      (case parseTime (max_p c) of None \<Rightarrow> True | Some hi \<Rightarrow> minutesOfDay t \<le> minutesOfDay hi))"

text \<open>
  Fields far inside the range of the doubles: with them no operation of the bounds check
  overflows, so that the figures compared are finite doubles, which is what the \<open>rat\<close>
  of \<open>minutesOfDay\<close> represents.
\<close>

definition finiteTime :: "time \<Rightarrow> bool" where
  "finiteTime t = (\<bar>hours t\<bar> < 2 ^ 1000 \<and> \<bar>minutes t\<bar> < 2 ^ 1000 \<and> \<bar>seconds t\<bar> < 2 ^ 1000)"









subsection \<open>The account of running time\<close>













section \<open>Strings of digits and the pieces of a formatted time\<close>

lemma toDouble_small: "\<bar>n\<bar> \<le> 2 ^ 53 \<Longrightarrow> toDouble n = n"
  by (simp add: toDouble_def)

lemma digit_char_is_digit: "d < 10 \<Longrightarrow> is_digit (digit_char d)"
  by (simp add: is_digit_def digit_char_def)

lemma digit_val_digit_char: "d < 10 \<Longrightarrow> digit_val (digit_char d) = int d"
  by (simp add: digit_val_def digit_char_def)

lemma digits_of_ne: "digits_of n \<noteq> []"
  by (subst digits_of.simps) simp

lemma digits_of_all_digits: "list_all is_digit (digits_of n)"
proof (induction n rule: digits_of.induct)
  case (1 n)
  show ?case
  proof (cases "n < 10")
    case True
    then show ?thesis by (subst digits_of.simps) (simp add: digit_char_is_digit)
  next
    case False
    with 1 show ?thesis by (subst digits_of.simps) (simp add: digit_char_is_digit)
  qed
qed

lemma digits_val_snoc: "digits_val (ds @ [c]) = 10 * digits_val ds + digit_val c"
  by (simp add: digits_val_def)

lemma digits_val_digits_of: "0 \<le> n \<Longrightarrow> digits_val (digits_of n) = n"
proof (induction n rule: digits_of.induct)
  case (1 n)
  show ?case
  proof (cases "n < 10")
    case True
    with 1(2) show ?thesis
      by (subst digits_of.simps) (simp add: digits_val_def digit_val_digit_char)
  next
    case False
    with 1 have "digits_val (digits_of (n div 10)) = n div 10" by simp
    with False show ?thesis
      by (subst digits_of.simps) (simp add: digits_val_snoc digit_val_digit_char)
  qed
qed

lemma digits_of_upper: "0 \<le> n \<Longrightarrow> n < 10 ^ length (digits_of n)"
proof (induction n rule: digits_of.induct)
  case (1 n)
  show ?case
  proof (cases "n < 10")
    case True
    then show ?thesis by (subst digits_of.simps) simp
  next
    case False
    with 1 have "n div 10 < 10 ^ length (digits_of (n div 10))" by simp
    then have "n < 10 * 10 ^ length (digits_of (n div 10))" by linarith
    with False show ?thesis by (subst digits_of.simps) simp
  qed
qed

lemma length_digits_of: "0 \<le> n \<Longrightarrow> n < 10 ^ k \<Longrightarrow> 0 < k \<Longrightarrow> length (digits_of n) \<le> k"
proof (induction n arbitrary: k rule: digits_of.induct)
  case (1 n)
  show ?case
  proof (cases "n < 10")
    case True
    with 1(4) show ?thesis by (subst digits_of.simps) simp
  next
    case False
    from 1(4) obtain j where j: "k = Suc j" by (cases k) auto
    have "0 < j"
    proof (rule ccontr)
      assume "\<not> 0 < j"
      with j 1(3) have "n < 10" by simp
      with False show False by simp
    qed
    from 1(3) j have "n div 10 < 10 ^ j" by simp
    with 1(1) [of j] False 1(2) \<open>0 < j\<close> have "length (digits_of (n div 10)) \<le> j" by simp
    with False j show ?thesis by (subst digits_of.simps) simp
  qed
qed

lemma digits_val_zeros: "digits_val (replicate k CHR ''0'' @ ds) = digits_val ds"
proof (induction k)
  case 0
  show ?case by simp
next
  case (Suc k)
  have "digits_val (CHR ''0'' # xs) = digits_val xs" for xs
    by (simp add: digits_val_def digit_val_def)
  with Suc show ?case by simp
qed

lemma is_digit_zero: "is_digit CHR ''0''"
  by (simp add: is_digit_def)

lemma is_digit_not_special:
  "is_digit c \<Longrightarrow> \<not> is_space c \<and> c \<noteq> CHR ''-'' \<and> c \<noteq> CHR ''+'' \<and> c \<noteq> CHR '':''"
  by (auto simp: is_digit_def is_space_def)

lemma parseInt_digits:
  assumes "ds \<noteq> []" and "list_all is_digit ds"
  shows "parseInt ds = Some (toDouble (digits_val ds))"
proof -
  from assms have c: "is_digit (hd ds)"
    by (cases ds) auto
  have tw: "takeWhile is_digit ds = ds"
    using assms(2) by (simp add: list_all_iff)
  have dw: "dropWhile is_space ds = ds"
    using assms(1) c is_digit_not_special [of "hd ds"] by (cases ds) auto
  have "hd ds \<noteq> CHR ''-''" "hd ds \<noteq> CHR ''+''"
    using c is_digit_not_special by blast+
  then show ?thesis
    using assms(1) by (simp add: parseInt_def Let_def dw tw)
qed

lemma enclosing_multiples:
  fixes x p q :: int
  assumes "0 \<le> x" and "x < p * q" and "0 < p"
  shows "0 \<le> (x div p) * p \<and> (x div p) * p \<le> x \<and> (x div p) * p + p \<le> p * q"
proof -
  have d0: "0 \<le> x div p"
    using assms(1,3) by (simp add: pos_imp_zdiv_nonneg_iff)
  have le: "(x div p) * p \<le> x"
    using assms(3) by (metis mult.commute mult_div_mod_eq add_increasing2 pos_mod_sign order_refl)
  have "x div p < q"
  proof (rule ccontr)
    assume "\<not> x div p < q"
    then have "q \<le> x div p" by simp
    then have "p * q \<le> p * (x div p)"
      using assms(3) by (simp add: mult_left_mono)
    also have "\<dots> \<le> x" using le by (simp add: mult.commute)
    finally show False using assms(2) by simp
  qed
  then have "x div p + 1 \<le> q" by simp
  then have "p * (x div p + 1) \<le> p * q"
    using assms(3) by (simp add: mult_left_mono)
  then have "(x div p) * p + p \<le> p * q"
    by (simp add: algebra_simps)
  with d0 le assms(3) show ?thesis by simp
qed

lemma candidates_range:
  assumes "0 \<le> x" and "c \<in> set (decimal_candidates x)"
  shows "0 \<le> c \<and> c \<le> 10 ^ length (digits_of x)"
proof -
  let ?n = "length (digits_of x)"
  from assms(2) obtain k where k: "1 \<le> k" "k \<le> ?n"
    and c: "c = (x div 10 ^ (?n - k)) * 10 ^ (?n - k)
          \<or> c = (x div 10 ^ (?n - k)) * 10 ^ (?n - k) + 10 ^ (?n - k)"
    by (auto simp: decimal_candidates_def Let_def split: if_splits)
  define p :: int where "p = 10 ^ (?n - k)"
  define lo where "lo = (x div p) * p"
  have p: "0 < p" by (simp add: p_def)
  have pw: "(10 :: int) ^ ?n = p * 10 ^ k"
    using k by (simp add: p_def flip: power_add)
  have "x < p * 10 ^ k"
    using digits_of_upper [OF assms(1)] pw by simp
  from enclosing_multiples [OF assms(1) this p]
  have "0 \<le> lo" "lo + p \<le> 10 ^ ?n"
    by (simp_all add: lo_def pw)
  moreover from c have "c = lo \<or> c = lo + p"
    by (simp add: lo_def p_def)
  ultimately show ?thesis
    using p by linarith
qed

lemma shortest_cases:
  "shortest x = x \<or> (shortest x \<in> set (decimal_candidates x) \<and> toDouble (shortest x) = x)"
proof (cases "find (\<lambda>c. toDouble c = x) (decimal_candidates x)")
  case None
  then show ?thesis by (simp add: shortest_def)
next
  case (Some c)
  then have "c \<in> set (decimal_candidates x) \<and> toDouble c = x"
    by (auto simp: find_Some_iff)
  with Some show ?thesis by (simp add: shortest_def)
qed

lemma toDouble_shortest: "toDouble x = x \<Longrightarrow> toDouble (shortest x) = x"
  using shortest_cases [of x] by auto

lemma shortest_nonneg: "0 \<le> x \<Longrightarrow> 0 \<le> shortest x"
  using shortest_cases [of x] candidates_range [of x "shortest x"] by auto

lemma toDouble_1e21: "toDouble (10 ^ 21) = 10 ^ 21"
  by code_simp

lemma shortest_below_1e21:
  assumes "0 \<le> x" and "x < 10 ^ 21"
  shows "shortest x < 10 ^ 21"
proof -
  consider "shortest x = x"
    | "shortest x \<in> set (decimal_candidates x)" "toDouble (shortest x) = x"
    using shortest_cases [of x] by blast
  then show ?thesis
  proof cases
    case 1
    with assms(2) show ?thesis by simp
  next
    case 2
    have "length (digits_of x) \<le> 21"
      using assms by (intro length_digits_of) simp_all
    then have "(10 :: int) ^ length (digits_of x) \<le> 10 ^ 21"
      by (intro power_increasing) simp_all
    with candidates_range [OF assms(1) 2(1)] have le: "shortest x \<le> 10 ^ 21" by linarith
    have "shortest x \<noteq> 10 ^ 21"
    proof
      assume "shortest x = 10 ^ 21"
      with 2(2) toDouble_1e21 have "x = 10 ^ 21" by simp
      with assms(2) show False by simp
    qed
    with le show ?thesis by linarith
  qed
qed

text \<open>A number that prints in plain digits and reads back as itself.\<close>

lemma String_num_plain:
  assumes "0 \<le> n" and "n < 10 ^ 21"
  shows "String_num n = digits_of (shortest n)"
  using assms shortest_below_1e21 [OF assms] by (simp add: String_num_def String_pos_def Let_def)

lemma pad_plain:
  assumes "0 \<le> n" and "n < 10 ^ 21"
  shows "pad n = replicate (2 - length (digits_of (shortest n))) CHR ''0'' @ digits_of (shortest n)"
  by (simp add: pad_def padStart0_def String_num_plain [OF assms])

lemma list_all_digits_pad: "0 \<le> n \<Longrightarrow> n < 10 ^ 21 \<Longrightarrow> list_all is_digit (pad n)"
  using digits_of_all_digits [of "shortest n"] is_digit_zero
  by (auto simp: pad_plain list_all_iff)

lemma parseInt_pad:
  assumes "0 \<le> n" and "n < 10 ^ 21" and "toDouble n = n"
  shows "parseInt (pad n) = Some n"
proof -
  let ?ds = "replicate (2 - length (digits_of (shortest n))) CHR ''0'' @ digits_of (shortest n)"
  have "?ds \<noteq> []" using digits_of_ne by simp
  moreover have "list_all is_digit ?ds"
    using list_all_digits_pad [OF assms(1,2)] by (simp add: pad_plain [OF assms(1,2)])
  ultimately have "parseInt ?ds = Some (toDouble (digits_val ?ds))"
    by (rule parseInt_digits)
  also have "digits_val ?ds = shortest n"
    using shortest_nonneg [OF assms(1)] by (simp add: digits_val_zeros digits_val_digits_of)
  also have "toDouble (shortest n) = n"
    using assms(3) by (rule toDouble_shortest)
  finally show ?thesis
    by (simp add: pad_plain [OF assms(1,2)])
qed

lemma parseInt_or0_pad:
  "0 \<le> n \<Longrightarrow> n < 10 ^ 21 \<Longrightarrow> toDouble n = n \<Longrightarrow> parseInt_or0 (pad n) = n"
  by (simp add: parseInt_or0_def parseInt_pad)

lemma pad_no_colon: "0 \<le> n \<Longrightarrow> n < 10 ^ 21 \<Longrightarrow> CHR '':'' \<notin> set (pad n)"
  using list_all_digits_pad [of n] is_digit_not_special by (auto simp: list_all_iff)

lemma length_pad: "2 \<le> length (pad n)"
  by (simp add: pad_def padStart0_def)

lemma split_colon_ne: "split_colon s \<noteq> []"
  by (induction s) (auto split: list.splits)

lemma split_colon_free: "CHR '':'' \<notin> set a \<Longrightarrow> split_colon a = [a]"
  by (induction a) auto

lemma split_colon_append:
  "CHR '':'' \<notin> set a \<Longrightarrow> split_colon (a @ CHR '':'' # r) = a # split_colon r"
  by (induction a) auto

text \<open>The numbers that \<open>formatTime\<close> prints in plain digits and \<open>parseTime\<close> reads back.\<close>

lemma split_colon_formatTime:
  assumes "0 \<le> h" "h < 10 ^ 21" "0 \<le> m" "m < 10 ^ 21" "0 \<le> s" "s < 10 ^ 21"
  shows "split_colon (formatTime h m (Some s)) = [pad h, pad m, pad s]"
  using assms by (simp add: formatTime_def split_colon_append split_colon_free pad_no_colon)

lemma formatTime_ne: "formatTime h m sec \<noteq> []"
  using length_pad [of h] by (auto simp: formatTime_def Let_def)

lemma parseTime_formatTime:
  assumes "0 \<le> h" "h < 10 ^ 21" "toDouble h = h"
    and "0 \<le> m" "m < 10 ^ 21" "toDouble m = m"
    and "0 \<le> s" "s < 10 ^ 21" "toDouble s = s"
  shows "parseTime (Some (formatTime h m (Some s))) = Some \<lparr> hours = h, minutes = m, seconds = s \<rparr>"
  using assms
  by (simp add: parseTime_def truthy_def formatTime_ne split_colon_formatTime parseInt_or0_pad)


lemma parseTime_None_iff:
  "parseTime ts = None \<longleftrightarrow> (\<not> truthy ts \<or> length (split_colon (the ts)) < 2)"
  by (simp add: parseTime_def Let_def)

lemma parseAndSetTime_parseTime:
  "parseAndSetTime ts c =
     (case parseTime ts of
        None \<Rightarrow> c
      | Some t \<Rightarrow> c\<lparr> u_hours := hours t, u_minutes := minutes t, u_seconds := seconds t \<rparr>)"
  by (simp add: parseAndSetTime_def parseTime_def Let_def)

section \<open>Arithmetic of the primitives\<close>

lemma js_rem_nonneg: "0 \<le> a \<Longrightarrow> 0 < b \<Longrightarrow> js_rem a b = a mod b"
  by (simp add: js_rem_def)

lemma Math_round_nonneg: "0 \<le> x \<Longrightarrow> 0 \<le> Math_round x"
  by (simp add: Math_round_def)

lemma rounded_mod_range:
  assumes "0 \<le> angle" and "0 < d" and "0 < k"
  shows "0 \<le> js_rem (Math_round (angle / d)) k \<and> js_rem (Math_round (angle / d)) k < k"
proof -
  from assms have "0 \<le> Math_round (angle / d)"
    by (intro Math_round_nonneg) simp
  with assms(3) show ?thesis
    by (simp add: js_rem_nonneg)
qed







section \<open>The bounds check as two comparisons\<close>

lemma not_truthy_parseTime: "\<not> truthy v \<Longrightarrow> parseTime v = None"
  by (simp add: parseTime_def)

lemma isWithinBounds_iff:
  "isWithinBounds c ts = (case parseTime (Some ts) of None \<Rightarrow> True | Some t \<Rightarrow> respectsBounds c t)"
proof (cases "parseTime (Some ts)")
  case None
  then show ?thesis by (simp add: isWithinBounds_def)
next
  case (Some t)
  have lo: "(truthy (min_p c) \<and> (case parseTime (min_p c) of None \<Rightarrow> False
              | Some minTime \<Rightarrow> minutesOfDay t < minutesOfDay minTime))
        = (\<not> (case parseTime (min_p c) of None \<Rightarrow> True | Some l \<Rightarrow> minutesOfDay l \<le> minutesOfDay t))"
    by (cases "truthy (min_p c)") (auto simp: not_truthy_parseTime split: option.splits)
  have hi: "(truthy (max_p c) \<and> (case parseTime (max_p c) of None \<Rightarrow> False
              | Some maxTime \<Rightarrow> minutesOfDay t > minutesOfDay maxTime))
        = (\<not> (case parseTime (max_p c) of None \<Rightarrow> True | Some h \<Rightarrow> minutesOfDay t \<le> minutesOfDay h))"
    by (cases "truthy (max_p c)") (auto simp: not_truthy_parseTime split: option.splits)
  show ?thesis
    unfolding isWithinBounds_def respectsBounds_def Some option.case lo hi
    by (auto simp: not_truthy_parseTime)
qed





section \<open>What each operation changes\<close>
























lemma performUpdate_running:
  "changedProperties c = [RunningWas old] \<Longrightarrow>
     performUpdate now c = runningChanged (running c) old now (c\<lparr> changedProperties := [] \<rparr>)"
  by (simp add: performUpdate_def)





section \<open>The intended use keeps the displayed time a time of day\<close>
























section \<open>Adjustments and the bounds\<close>



lemma displayed_settled: "displayed (c\<lparr> changedProperties := [] \<rparr>) = displayed c"
  by (simp add: displayed_def)










section \<open>The clock follows the account of running time\<close>

















section \<open>Parsing and formatting\<close>

text \<open>
  C8, as amended.  Parsing undoes formatting for the natural numbers that are doubles
  below \<open>10 ^ 21\<close>, among them every natural number up to \<open>2 ^ 53\<close>: for such \<open>h\<close>, \<open>m\<close>,
  \<open>s\<close> the string \<open>formatTime(h, m, s)\<close> parses to the hours \<open>h\<close>, the minutes \<open>m\<close> and the
  seconds \<open>s\<close>.  The formatted string splits at its colons into exactly three fields, the
  padded numbers, each of at least two characters, all of them digits.  Leaving the
  seconds out is the same as passing \<open>0\<close>.
\<close>

theorem parseTime_formatTime_roundtrip:
  fixes h m s :: nat
  assumes "toDouble (int h) = int h" and "int h < 10 ^ 21"
    and "toDouble (int m) = int m" and "int m < 10 ^ 21"
    and "toDouble (int s) = int s" and "int s < 10 ^ 21"
  shows "parseTime (Some (formatTime (int h) (int m) (Some (int s))))
           = Some \<lparr> hours = int h, minutes = int m, seconds = int s \<rparr>
       \<and> split_colon (formatTime (int h) (int m) (Some (int s)))
           = [pad (int h), pad (int m), pad (int s)]
       \<and> 2 \<le> length (pad (int h)) \<and> list_all is_digit (pad (int h))
       \<and> 2 \<le> length (pad (int m)) \<and> list_all is_digit (pad (int m))
       \<and> 2 \<le> length (pad (int s)) \<and> list_all is_digit (pad (int s))
       \<and> formatTime (int h) (int m) None = formatTime (int h) (int m) (Some 0)"
proof -
  have "formatTime (int h) (int m) None = formatTime (int h) (int m) (Some 0)"
    by (simp add: formatTime_def)
  moreover have "parseTime (Some (formatTime (int h) (int m) (Some (int s))))
                   = Some \<lparr> hours = int h, minutes = int m, seconds = int s \<rparr>"
    using assms by (intro parseTime_formatTime) simp_all
  moreover have "split_colon (formatTime (int h) (int m) (Some (int s)))
                   = [pad (int h), pad (int m), pad (int s)]"
    using assms by (intro split_colon_formatTime) simp_all
  moreover have "list_all is_digit (pad (int h))" "list_all is_digit (pad (int m))"
      "list_all is_digit (pad (int s))"
    using assms by (simp_all add: list_all_digits_pad)
  ultimately show ?thesis
    by (simp add: length_pad)
qed

theorem parseTime_formatTime_roundtrip_witness:
  "parseTime (Some (formatTime 9 5 (Some 7))) = Some \<lparr> hours = 9, minutes = 5, seconds = 7 \<rparr>
   \<and> split_colon (formatTime 9 5 (Some 7)) = [pad 9, pad 5, pad 7]
   \<and> formatTime 9 5 None = formatTime 9 5 (Some 0)"
  using parseTime_formatTime_roundtrip [of 9 5 7] by (simp add: toDouble_small)

text \<open>
  From \<open>10 ^ 21\<close> on a number is printed with an exponent.  \<open>10 ^ 21\<close> is a double; it
  is formatted as \<open>1e+21\<close>, which has a character that is not a digit, and the string
  \<open>1e+21:00:00\<close> parses to the hours \<open>1\<close>.
\<close>

theorem exponent_notation_counterexample:
  "toDouble (10 ^ 21) = 10 ^ 21
   \<and> formatTime (10 ^ 21) 0 (Some 0) = ''1e+21:00:00''
   \<and> \<not> list_all is_digit (pad (10 ^ 21))
   \<and> parseTime (Some (formatTime (10 ^ 21) 0 (Some 0))) = Some \<lparr> hours = 1, minutes = 0, seconds = 0 \<rparr>"
  by code_simp

text \<open>
  C5.  A malformed time string is not an error.  \<open>parseTime\<close> is a total function with
  no failing branch, and for a string that is absent, empty or has fewer than two
  colon-separated parts it returns \<open>null\<close>; for the same inputs \<open>_parseAndSetTime\<close> leaves
  the clock, and so its hours, minutes and seconds, as it was.
\<close>

theorem malformed_time_string_ignored:
  assumes "ts = None \<or> ts = Some [] \<or> (\<exists>str. ts = Some str \<and> length (split_colon str) < 2)"
  shows "parseTime ts = None \<and> parseAndSetTime ts c = c
       \<and> u_hours (parseAndSetTime ts c) = u_hours c
       \<and> u_minutes (parseAndSetTime ts c) = u_minutes c
       \<and> u_seconds (parseAndSetTime ts c) = u_seconds c"
proof -
  from assms have "\<not> truthy ts \<or> length (split_colon (the ts)) < 2"
    by (auto simp: truthy_def)
  then have none: "parseTime ts = None"
    by (simp add: parseTime_None_iff)
  then have "parseAndSetTime ts c = c"
    by (simp add: parseAndSetTime_parseTime)
  with none show ?thesis by simp
qed

theorem malformed_time_string_ignored_witness:
  "length (split_colon ''invalid'') < 2
   \<and> parseTime (Some ''invalid'') = None
   \<and> parseAndSetTime (Some ''invalid'') initial_clock = initial_clock"
proof -
  have len: "length (split_colon ''invalid'') < 2" by simp
  then have "Some ''invalid'' = None \<or> Some ''invalid'' = Some []
      \<or> (\<exists>str. Some ''invalid'' = Some str \<and> length (split_colon str) < 2)"
    by blast
  from malformed_time_string_ignored [OF this, of initial_clock] len show ?thesis
    by blast
qed

section \<open>The bounds check\<close>

text \<open>
  C9, as amended.  The bounds check compares inclusively and a bound that is absent or
  does not parse imposes nothing: with both bounds absent every time passes; a bound that
  \<open>parseTime\<close> maps to \<open>null\<close> can be dropped without changing the answer.  The check
  compares the figures \<open>hours * 60 + minutes + seconds / 60\<close> as the code computes them in
  doubles.  For fields far inside the range of the doubles, a time whose figure equals
  that of the minimum passes the test against the minimum, so the answer is that of the
  test against the maximum alone, and likewise for the maximum; hence, when the figure of
  the minimum is not above that of the maximum, a time whose figure equals that of either
  bound is within bounds.
\<close>

theorem bounds_check_inclusive:
  "(\<not> truthy (min_p c) \<and> \<not> truthy (max_p c) \<longrightarrow> isWithinBounds c ts)
   \<and> (parseTime (min_p c) = None \<longrightarrow> isWithinBounds c ts = isWithinBounds (c\<lparr> min_p := None \<rparr>) ts)
   \<and> (parseTime (max_p c) = None \<longrightarrow> isWithinBounds c ts = isWithinBounds (c\<lparr> max_p := None \<rparr>) ts)
   \<and> (\<forall>t lo. parseTime (Some ts) = Some t \<and> parseTime (min_p c) = Some lo
          \<and> finiteTime t \<and> finiteTime lo \<and> minutesOfDay t = minutesOfDay lo
        \<longrightarrow> isWithinBounds c ts = isWithinBounds (c\<lparr> min_p := None \<rparr>) ts)
   \<and> (\<forall>t hi. parseTime (Some ts) = Some t \<and> parseTime (max_p c) = Some hi
          \<and> finiteTime t \<and> finiteTime hi \<and> minutesOfDay t = minutesOfDay hi
        \<longrightarrow> isWithinBounds c ts = isWithinBounds (c\<lparr> max_p := None \<rparr>) ts)
   \<and> (\<forall>t lo hi. parseTime (Some ts) = Some t \<and> parseTime (min_p c) = Some lo
          \<and> parseTime (max_p c) = Some hi
          \<and> finiteTime t \<and> finiteTime lo \<and> finiteTime hi
          \<and> minutesOfDay lo \<le> minutesOfDay hi
          \<and> (minutesOfDay t = minutesOfDay lo \<or> minutesOfDay t = minutesOfDay hi)
        \<longrightarrow> isWithinBounds c ts)"
proof -
  have none: "parseTime None = None"
    by (simp add: parseTime_def truthy_def)
  show ?thesis
    by (auto simp: isWithinBounds_iff respectsBounds_def none not_truthy_parseTime
          split: option.splits)
qed

theorem bounds_check_inclusive_witness:
  "isWithinBounds (initial_clock\<lparr> min_p := Some ''08:00:00'', max_p := Some ''17:00'' \<rparr>) ''08:00:00''
   \<and> isWithinBounds (initial_clock\<lparr> min_p := Some ''08:00:00'', max_p := Some ''17:00'' \<rparr>) ''17:00:00''"
proof -
  let ?c = "initial_clock\<lparr> min_p := Some ''08:00:00'', max_p := Some ''17:00'' \<rparr>"
  have lo: "parseTime (min_p ?c) = Some \<lparr> hours = 8, minutes = 0, seconds = 0 \<rparr>"
    by code_simp
  have hi: "parseTime (max_p ?c) = Some \<lparr> hours = 17, minutes = 0, seconds = 0 \<rparr>"
    by code_simp
  have t1: "parseTime (Some ''08:00:00'') = Some \<lparr> hours = 8, minutes = 0, seconds = 0 \<rparr>"
    by code_simp
  have t2: "parseTime (Some ''17:00:00'') = Some \<lparr> hours = 17, minutes = 0, seconds = 0 \<rparr>"
    by code_simp
  have le: "minutesOfDay \<lparr> hours = 8, minutes = 0, seconds = 0 \<rparr>
              \<le> minutesOfDay \<lparr> hours = 17, minutes = 0, seconds = 0 \<rparr>"
    by code_simp
  have fin: "finiteTime \<lparr> hours = 8, minutes = 0, seconds = 0 \<rparr>"
      "finiteTime \<lparr> hours = 17, minutes = 0, seconds = 0 \<rparr>"
    by (simp_all add: finiteTime_def)
  from bounds_check_inclusive [of ?c "''08:00:00''"] lo hi t1 le fin
  have a: "isWithinBounds ?c ''08:00:00''" by blast
  from bounds_check_inclusive [of ?c "''17:00:00''"] lo hi t2 le fin
  have b: "isWithinBounds ?c ''17:00:00''" by blast
  from a b show ?thesis by blast
qed

text \<open>
  The check tests the two bounds independently and nothing orders them: with the minimum
  at ten o'clock and the maximum at nine, the time ten o'clock equals the minimum and is
  refused.
\<close>

theorem inverted_bounds_counterexample:
  "\<not> isWithinBounds (initial_clock\<lparr> min_p := Some ''10:00:00'', max_p := Some ''09:00:00'' \<rparr>) ''10:00:00''"
  by code_simp

text \<open>
  The figures are compared as the doubles that the code computes.  73 seconds and one
  minute 13 seconds are the same time, but \<open>73 / 60\<close> is a double below that of
  \<open>1 + 13 / 60\<close>: under the minimum \<open>00:01:13\<close> the time \<open>00:00:73\<close> is refused.
\<close>

lemma same_time_other_figure:
  "minutesOfDay \<lparr> hours = 0, minutes = 0, seconds = 73 \<rparr>
     < minutesOfDay \<lparr> hours = 0, minutes = 1, seconds = 13 \<rparr>
   \<and> \<not> isWithinBounds (initial_clock\<lparr> min_p := Some ''00:01:13'' \<rparr>) ''00:00:73''"
  by code_simp

section \<open>User adjustments\<close>

text \<open>
  C2.  An adjustment whose candidate time fails the bounds check changes nothing: for a
  keyboard step, a hand drag, a click on the face and a switch between AM and PM, when
  the formatted candidate is not within bounds the operation returns the clock exactly as
  it was, so the displayed hours, minutes and seconds and the value are as before.  The
  operations are total functions; none has a failing branch.
\<close>

theorem out_of_bounds_adjustment_rejected:
  "(\<not> isWithinBounds c (fmt (steppedTime stepSeconds c)) \<longrightarrow> adjustTimeByStep stepSeconds now c = c)
   \<and> (\<not> isWithinBounds c (fmt (draggedTime angle c)) \<longrightarrow> handleDrag angle c = c)
   \<and> (\<not> isWithinBounds c (formatTime (u_hours c) (js_rem (Math_round (angle / 6)) 60) (Some 0))
        \<longrightarrow> handleFaceClick angle now c = c)
   \<and> (\<not> isWithinBounds c (formatTime (toggledHours toAM c) (u_minutes c) (Some (u_seconds c)))
        \<longrightarrow> toggleAmPm toAM now c = c)"
  by (simp add: adjustTimeByStep_def handleDrag_def handleFaceClick_def toggleAmPm_def fmt_def Let_def)

theorem out_of_bounds_adjustment_rejected_witness:
  "\<not> isWithinBounds
        (set_value (Some ''17:00:00'') 1 (initial_clock\<lparr> max_p := Some ''17:00:00'' \<rparr>))
        (fmt (steppedTime 60
           (set_value (Some ''17:00:00'') 1 (initial_clock\<lparr> max_p := Some ''17:00:00'' \<rparr>))))
   \<and> adjustTimeByStep 60 2
        (set_value (Some ''17:00:00'') 1 (initial_clock\<lparr> max_p := Some ''17:00:00'' \<rparr>))
      = set_value (Some ''17:00:00'') 1 (initial_clock\<lparr> max_p := Some ''17:00:00'' \<rparr>)"
proof -
  let ?c = "set_value (Some ''17:00:00'') 1 (initial_clock\<lparr> max_p := Some ''17:00:00'' \<rparr>)"
  have out: "\<not> isWithinBounds ?c (fmt (steppedTime 60 ?c))"
    by code_simp
  with out_of_bounds_adjustment_rejected [of ?c 60 2] show ?thesis
    by blast
qed

text \<open>
  C3.  The keyboard step wraps around the day once.  From midnight a step of 200000
  seconds gives the candidate 31:33:20, and the arrow key stores it as the value, where
  wrapping modulo the day gives 27200 seconds, that is 07:33:20.
\<close>

theorem step_beyond_two_days_not_wrapped:
  "steppedTime 200000 (set_value (Some ''00:00:00'') 1 (initial_clock\<lparr> step := 200000 \<rparr>))
     = \<lparr> hours = 31, minutes = 33, seconds = 20 \<rparr>
   \<and> value_p (onKeyDown ''ArrowUp'' 2
        (onFocus (set_value (Some ''00:00:00'') 1 (initial_clock\<lparr> step := 200000 \<rparr>))))
     = Some ''31:33:20''
   \<and> (0 + 200000) mod 86400 = (27200 :: int)
   \<and> \<lparr> hours = 27200 div 3600, minutes = 27200 mod 3600 div 60, seconds = 27200 mod 60 \<rparr>
     = \<lparr> hours = 7, minutes = 33, seconds = 20 \<rparr>"
  by code_simp

theorem step_beyond_two_days_not_wrapped_witness:
  "value_p (onKeyDown ''ArrowUp'' 2
      (onFocus (set_value (Some ''00:00:00'') 1 (initial_clock\<lparr> step := 200000 \<rparr>))))
     = Some ''31:33:20''"
  using step_beyond_two_days_not_wrapped by blast

text \<open>
  C10.  Dragging the hour hand keeps the half of the day: for an angle from 0 up to but
  not including 360 and displayed hours from 0 to 23, the hours of the candidate lie from
  12 to 23 when the displayed hours are at least 12 and from 0 to 11 otherwise; the sum
  that the two special-case corrections test is never 24 and is never 0 in the afternoon,
  so the candidate is that sum.
\<close>

theorem hour_drag_keeps_half_of_day:
  assumes "0 \<le> angle" and "angle < 360"
    and "0 \<le> u_hours c" and "u_hours c \<le> 23"
    and "u_draggingHand c = Some ''hour''"
  shows "(12 \<le> u_hours c \<longrightarrow> 12 \<le> hours (draggedTime angle c) \<and> hours (draggedTime angle c) \<le> 23)
       \<and> (u_hours c < 12 \<longrightarrow> 0 \<le> hours (draggedTime angle c) \<and> hours (draggedTime angle c) \<le> 11)
       \<and> draggedHourSum angle c \<noteq> 24
       \<and> \<not> (draggedHourSum angle c = 0 \<and> 12 \<le> u_hours c)
       \<and> hours (draggedTime angle c) = draggedHourSum angle c"
proof -
  have r: "0 \<le> js_rem (Math_round (angle / 30)) 12 \<and> js_rem (Math_round (angle / 30)) 12 < 12"
    using assms(1) by (intro rounded_mod_range) simp_all
  then show ?thesis
    using assms(5) by (auto simp: draggedTime_def draggedHours_def draggedHourSum_def Let_def)
qed

theorem hour_drag_keeps_half_of_day_witness:
  "12 \<le> hours (draggedTime 95 (initial_clock\<lparr> u_hours := 13, u_draggingHand := Some ''hour'' \<rparr>))
   \<and> hours (draggedTime 95 (initial_clock\<lparr> u_hours := 13, u_draggingHand := Some ''hour'' \<rparr>)) \<le> 23
   \<and> draggedHourSum 95 (initial_clock\<lparr> u_hours := 13, u_draggingHand := Some ''hour'' \<rparr>) \<noteq> 24"
  using hour_drag_keeps_half_of_day
    [of 95 "initial_clock\<lparr> u_hours := 13, u_draggingHand := Some ''hour'' \<rparr>"]
  by simp

section \<open>Interactivity\<close>

text \<open>
  C7, as amended.  When the clock is not adjustable, or is disabled, or is read-only, the
  handlers of a click or touch on the face, of a mouse-down or touch-start on a hand, of
  a key and of the AM/PM switch return the clock unchanged.  The handlers that continue
  and end a drag test the dragging-hand marker, not the flags: they return the clock
  unchanged when no hand is being dragged.
\<close>

theorem noninteractive_handlers_change_nothing:
  assumes "\<not> adjustable c \<or> disabled c \<or> readonly c"
  shows "onFaceMouseDown angle now c = c
       \<and> onFaceTouchStart touches now c = c
       \<and> onMouseDown hand c = c
       \<and> onTouchStart hand c = c
       \<and> onKeyDown key now c = c
       \<and> toggleAmPm toAM now c = c
       \<and> (\<not> truthy (u_draggingHand c) \<longrightarrow>
            onMouseMove angle c = c \<and> onTouchMove touches c = c
            \<and> onMouseUp now c = c \<and> onTouchEnd now c = c)"
proof -
  from assms have "\<not> isInteractive c"
    by (auto simp: isInteractive_def)
  then show ?thesis
    by (simp add: onFaceMouseDown_def onFaceTouchStart_def onMouseDown_def onTouchStart_def
          onKeyDown_def toggleAmPm_def onMouseMove_def onTouchMove_def onMouseUp_def
          onTouchEnd_def)
qed

theorem noninteractive_handlers_change_nothing_witness:
  "onKeyDown ''ArrowUp'' 2 (onFocus (set_value (Some ''12:00:00'') 1 (initial_clock\<lparr> adjustable := False \<rparr>)))
     = onFocus (set_value (Some ''12:00:00'') 1 (initial_clock\<lparr> adjustable := False \<rparr>))
   \<and> onMouseDown ''hour'' (onFocus (set_value (Some ''12:00:00'') 1 (initial_clock\<lparr> adjustable := False \<rparr>)))
     = onFocus (set_value (Some ''12:00:00'') 1 (initial_clock\<lparr> adjustable := False \<rparr>))"
proof -
  let ?c = "onFocus (set_value (Some ''12:00:00'') 1 (initial_clock\<lparr> adjustable := False \<rparr>))"
  have "\<not> adjustable ?c"
    by code_simp
  then have "\<not> adjustable ?c \<or> disabled ?c \<or> readonly ?c"
    by blast
  from noninteractive_handlers_change_nothing [OF this] show ?thesis
    by blast
qed

text \<open>
  A drag that began while the clock was interactive goes on after the clock is disabled:
  the hour hand is grabbed, the clock is disabled, and a move to 90 degrees takes the
  displayed hours from 0 to 3.
\<close>

theorem drag_ignores_flags_counterexample:
  "\<not> isInteractive (fire_all [HandMouseDown ''hour'', SetDisabled True] initial_clock)
   \<and> u_hours (fire_all [HandMouseDown ''hour'', SetDisabled True] initial_clock) = 0
   \<and> u_hours (onMouseMove 90 (fire_all [HandMouseDown ''hour'', SetDisabled True] initial_clock)) = 3"
  by code_simp

section \<open>The displayed time and the bounds over the life of a clock\<close>







section \<open>The running clock\<close>




end
